theory Spec2Isabelle
  imports Complex_Main
begin

section \<open>TimelineSlider.tsx: the dual-mode timeline\<close>

text \<open>
  The component keeps five pieces of React state: the single handle, the two range
  handles, the active mode and the drag state. JavaScript numbers that hold slot indices
  are modelled as \<open>int\<close>; pointer coordinates are modelled as \<open>real\<close> (ideal
  arithmetic, no rounding of the quotient). Every handler reads the state of the latest
  render and schedules an update; the model passes the state in and returns the updated
  one.
\<close>

datatype mode = ModeSingle | ModeRange

datatype drag_type = DragSingle | DragStart | DragEnd

record drag_state =
  dtype :: drag_type
  startX :: real

record slider_state =
  singleHandle :: int
  rangeStart :: int
  rangeEnd :: int
  mode :: mode
  dragState :: "drag_state option"

subsection \<open>Dates and the local time zone\<close>

text \<open>
  A \<open>Date\<close> is its time value, the milliseconds since the epoch in UTC. The methods
  the component calls work on local time: ECMAScript reads the local time of a time
  value as \<open>t + LocalTZA(t, true)\<close>, changes a field there, and converts the result
  back with \<open>t - LocalTZA(t, false)\<close>. The two offset functions are supplied by the
  host's time zone, which is a parameter of the model.
\<close>

definition msPerHour :: int where
  "msPerHour = 3600000"

definition msPerDay :: int where
  "msPerDay = 24 * msPerHour"

record zone =
  utcOffset :: "int \<Rightarrow> int"
  localOffset :: "int \<Rightarrow> int"

definition LocalTime :: "zone \<Rightarrow> int \<Rightarrow> int" where
  "LocalTime z t = t + utcOffset z t"

definition UTC :: "zone \<Rightarrow> int \<Rightarrow> int" where
  "UTC z t = t - localOffset z t"

text \<open>A zone whose offset from UTC never changes.\<close>

definition fixedZone :: "int \<Rightarrow> zone" where
  "fixedZone c = \<lparr>utcOffset = (\<lambda>t. c), localOffset = (\<lambda>t. c)\<rparr>"



text \<open>
  \<open>d.setHours(h)\<close>: the local day and the minutes, seconds and milliseconds of the
  local time are kept, the hour is replaced; an hour outside \<open>0..23\<close> runs into the
  neighbouring days.
\<close>

definition setHours :: "zone \<Rightarrow> int \<Rightarrow> int \<Rightarrow> int" where
  "setHours z tv h =
     (let t = LocalTime z tv
      in UTC z ((t div msPerDay) * msPerDay + h * msPerHour + t mod msPerHour))"

text \<open>\<open>d.setHours(0, 0, 0, 0)\<close>: local midnight of the local day.\<close>

definition setMidnight :: "zone \<Rightarrow> int \<Rightarrow> int" where
  "setMidnight z tv = (let t = LocalTime z tv in UTC z ((t div msPerDay) * msPerDay))"

text \<open>
  \<open>d.setDate(d.getDate() + k)\<close>: the day of the local time moves by \<open>k\<close> days (a day
  of the month outside the month runs into the neighbouring months), the time within
  the day is kept.
\<close>

definition addDate :: "zone \<Rightarrow> int \<Rightarrow> int \<Rightarrow> int" where
  "addDate z tv k = (let t = LocalTime z tv in UTC z (t + k * msPerDay))"

subsection \<open>Slot times\<close>

text \<open>A \<open>TimelineDataPoint\<close>; its \<open>label\<close> is display text and is left out.\<close>

record timeline_data_point =
  index :: int
  date :: int

text \<open>
  \<open>generateTimelineData\<close>; \<open>now\<close> is the time value of \<open>new Date()\<close> when the
  component mounts.
\<close>

definition generateTimelineData :: "zone \<Rightarrow> int \<Rightarrow> timeline_data_point list" where
  "generateTimelineData z now =
     (let startDate = setMidnight z (addDate z now (- 15))
      in concat (map (\<lambda>day. map (\<lambda>hour.
           \<lparr>index = int day * 24 + int hour,
            date = setHours z (addDate z startDate (int day)) (int hour)\<rparr>) [0..<24]) [0..<30]))"


text \<open>
  \<open>timelineData.length\<close>: 30 days of 24 hourly slots. The length is the same in every
  zone and at every time of mounting (lemma \<open>length_generateTimelineData\<close>); the
  constant takes it at UTC and time 0.
\<close>

definition totalHours :: int where
  "totalHours = int (length (generateTimelineData (fixedZone 0) 0))"

definition todayIndex :: int where
  "todayIndex = 15 * 24"

text \<open>
  The state the hooks start with; \<open>h\<close> is \<open>new Date().getHours()\<close> at mount.
\<close>

definition initialState :: "int \<Rightarrow> slider_state" where
  "initialState h =
     \<lparr>singleHandle = todayIndex + h, rangeStart = todayIndex,
      rangeEnd = todayIndex + 24, mode = ModeSingle, dragState = None\<rparr>"

subsection \<open>Pointer position to slot index\<close>

text \<open>\<open>Math.round\<close> rounds halves up, as \<^const>\<open>round\<close> does.\<close>

definition percentToValue :: "real \<Rightarrow> int" where
  "percentToValue percent = round ((percent / 100) * real_of_int (totalHours - 1))"

record dom_rect =
  left :: real
  width :: real

text \<open>
  \<open>getMousePosition\<close>: \<open>sliderRef.current\<close> is \<open>None\<close> before the slider is
  mounted, and the function returns index 0 then. For a rectangle of width 0 the source
  divides by zero (the quotient is an infinity or NaN); that case is outside the model and
  yields \<open>None\<close> here.
\<close>

definition getMousePosition :: "dom_rect option \<Rightarrow> real \<Rightarrow> int option" where
  "getMousePosition sliderRef clientX =
     (case sliderRef of
        None \<Rightarrow> Some 0
      | Some rect \<Rightarrow>
          if width rect = 0 then None
          else
            let percent = max 0 (min 100 (((clientX - left rect) / width rect) * 100))
            in Some (percentToValue percent))"

subsection \<open>Handlers\<close>

text \<open>
  In the handlers below \<open>newValue\<close> is the index \<open>getMousePosition\<close> returned for
  the event.
\<close>

definition handleMouseDown :: "slider_state \<Rightarrow> drag_type \<Rightarrow> real \<Rightarrow> slider_state" where
  "handleMouseDown s handleType x = s\<lparr>dragState := Some \<lparr>dtype = handleType, startX = x\<rparr>\<rparr>"

definition handleMouseMove :: "slider_state \<Rightarrow> int \<Rightarrow> slider_state" where
  "handleMouseMove s newValue =
     (case dragState s of
        None \<Rightarrow> s
      | Some d \<Rightarrow>
          if mode s = ModeSingle then
            s\<lparr>singleHandle := max 0 (min (totalHours - 1) newValue)\<rparr>
          else if dtype d = DragStart then
            s\<lparr>rangeStart := max 0 (min (rangeEnd s - 1) newValue)\<rparr>
          else if dtype d = DragEnd then
            s\<lparr>rangeEnd := max (rangeStart s + 1) (min (totalHours - 1) newValue)\<rparr>
          else s)"

definition handleMouseUp :: "slider_state \<Rightarrow> slider_state" where
  "handleMouseUp s = s\<lparr>dragState := None\<rparr>"

definition handleSliderClick :: "slider_state \<Rightarrow> int \<Rightarrow> slider_state" where
  "handleSliderClick s newValue =
     (if dragState s \<noteq> None then s
      else if mode s = ModeSingle then s\<lparr>singleHandle := newValue\<rparr>
      else
        let distToStart = \<bar>newValue - rangeStart s\<bar>;
            distToEnd = \<bar>newValue - rangeEnd s\<bar>
        in if distToStart < distToEnd then
             s\<lparr>rangeStart := max 0 (min (rangeEnd s - 1) newValue)\<rparr>
           else
             s\<lparr>rangeEnd := max (rangeStart s + 1) (min (totalHours - 1) newValue)\<rparr>)"

text \<open>\<open>hours\<close> is \<open>new Date().getHours()\<close> at the time of the click.\<close>

definition goToNow :: "slider_state \<Rightarrow> int \<Rightarrow> slider_state" where
  "goToNow s hours =
     (let now = todayIndex + hours
      in if mode s = ModeSingle then s\<lparr>singleHandle := now\<rparr>
         else s\<lparr>rangeStart := now, rangeEnd := now + 24\<rparr>)"

definition goToToday :: "slider_state \<Rightarrow> slider_state" where
  "goToToday s =
     (if mode s = ModeSingle then s\<lparr>singleHandle := todayIndex\<rparr>
      else s\<lparr>rangeStart := todayIndex, rangeEnd := todayIndex + 24\<rparr>)"

definition setMode :: "slider_state \<Rightarrow> mode \<Rightarrow> slider_state" where
  "setMode s m = s\<lparr>mode := m\<rparr>"

subsection \<open>Events and runs\<close>

text \<open>
  One constructor per user interaction the component listens to. \<open>MouseMove\<close> and
  \<open>Click\<close> carry the index computed from the pointer, \<open>GoToNow\<close> the current local
  hour.
\<close>

datatype event =
    MouseDown drag_type real
  | MouseMove int
  | MouseUp
  | Click int
  | GoToNow int
  | GoToToday
  | SetMode mode

fun step :: "slider_state \<Rightarrow> event \<Rightarrow> slider_state" where
  "step s (MouseDown t x) = handleMouseDown s t x"
| "step s (MouseMove v) = handleMouseMove s v"
| "step s MouseUp = handleMouseUp s"
| "step s (Click v) = handleSliderClick s v"
| "step s (GoToNow h) = goToNow s h"
| "step s GoToToday = goToToday s"
| "step s (SetMode m) = setMode s m"

text \<open>The states committed after each event of a run, in order.\<close>

fun trace :: "slider_state \<Rightarrow> event list \<Rightarrow> slider_state list" where
  "trace s [] = []"
| "trace s (e # es) = step s e # trace (step s e) es"

text \<open>
  What the environment guarantees about an event: a clicked index comes from
  \<open>getMousePosition\<close> and a local hour is a clock hour. A dragged index needs no
  such guarantee, since \<open>handleMouseMove\<close> clamps it on every path.
\<close>

fun wf_event :: "event \<Rightarrow> bool" where
  "wf_event (Click v) = (0 \<le> v \<and> v \<le> totalHours - 1)"
| "wf_event (GoToNow h) = (0 \<le> h \<and> h \<le> 23)"
| "wf_event e = True"

text \<open>
  The selection invariant: \<open>rangeStart\<close> lies in \<open>[0, rangeEnd - 1]\<close>, \<open>rangeEnd\<close> in
  \<open>[rangeStart + 1, N - 1]\<close> and \<open>singleHandle\<close> in \<open>[0, N - 1]\<close>.
\<close>

definition tl_inv :: "slider_state \<Rightarrow> bool" where
  "tl_inv s =
     (0 \<le> singleHandle s \<and> singleHandle s \<le> totalHours - 1 \<and>
      0 \<le> rangeStart s \<and> rangeStart s \<le> rangeEnd s - 1 \<and>
      rangeStart s + 1 \<le> rangeEnd s \<and> rangeEnd s \<le> totalHours - 1)"


subsection \<open>The notification effect\<close>




text \<open>The state after a whole run of events.\<close>

fun run :: "slider_state \<Rightarrow> event list \<Rightarrow> slider_state" where
  "run s [] = s"
| "run s (e # es) = run (step s e) es"

fun switches_mode :: "event \<Rightarrow> bool" where
  "switches_mode (SetMode m) = True"
| "switches_mode e = False"

section \<open>MapView.tsx: sampling, classification and the polygon store\<close>

text \<open>
  JavaScript numbers that hold temperatures and coordinates are modelled as \<open>real\<close>:
  sums and quotients of numbers are exact. A vertex is a pair \<open>[lng, lat]\<close>; a ring is
  the list \<open>coordinates[0]\<close> of a GeoJSON polygon.
\<close>

type_synonym lnglat = "real \<times> real"

type_synonym ring = "lnglat list"

subsection \<open>Threshold rules and \<open>getPolygonColor\<close>\<close>

datatype operator = OpGt | OpLt | OpGe | OpLe | OpEq

record threshold_rule =
  operator :: operator
  rule_value :: real
  color :: string

text \<open>
  The \<open>for\<close> loop over the rules: each \<open>case\<close> of the \<open>switch\<close> returns the
  rule's colour when its comparison holds and breaks to the next rule otherwise; after
  the last rule the fallback colour is returned.
\<close>

fun rulesLoop :: "real \<Rightarrow> threshold_rule list \<Rightarrow> string" where
  "rulesLoop avg [] = ''#cccccc''"
| "rulesLoop avg (rule # rest) =
     (case operator rule of
        OpGt \<Rightarrow> if avg > rule_value rule then color rule else rulesLoop avg rest
      | OpLt \<Rightarrow> if avg < rule_value rule then color rule else rulesLoop avg rest
      | OpGe \<Rightarrow> if avg \<ge> rule_value rule then color rule else rulesLoop avg rest
      | OpLe \<Rightarrow> if avg \<le> rule_value rule then color rule else rulesLoop avg rest
      | OpEq \<Rightarrow> if avg = rule_value rule then color rule else rulesLoop avg rest)"

text \<open>\<open>weatherData\<close> is \<open>None\<close> when the argument is \<open>undefined\<close>.\<close>

definition getPolygonColor :: "real list option \<Rightarrow> threshold_rule list \<Rightarrow> string" where
  "getPolygonColor weatherData thresholds =
     (case weatherData of
        None \<Rightarrow> ''#cccccc''
      | Some ws \<Rightarrow>
          if length ws = 0 then ''#cccccc''
          else
            let avg = foldl (\<lambda>a b. a + b) 0 ws / real (length ws)
            in rulesLoop avg thresholds)"

text \<open>
  The classification as the specification words it: an absent aggregate gives the
  neutral colour, otherwise the first rule in list order whose predicate holds gives
  its colour, and the neutral colour is the answer when none holds.
\<close>

definition neutralColor :: string where
  "neutralColor = ''#cccccc''"

definition rule_holds :: "threshold_rule \<Rightarrow> real \<Rightarrow> bool" where
  "rule_holds r a =
     (case operator r of
        OpGt \<Rightarrow> a > rule_value r
      | OpLt \<Rightarrow> a < rule_value r
      | OpGe \<Rightarrow> a \<ge> rule_value r
      | OpLe \<Rightarrow> a \<le> rule_value r
      | OpEq \<Rightarrow> a = rule_value r)"

definition spec_classify :: "real option \<Rightarrow> threshold_rule list \<Rightarrow> string" where
  "spec_classify aggregate rules =
     (case aggregate of
        None \<Rightarrow> neutralColor
      | Some a \<Rightarrow>
          (case find (\<lambda>r. rule_holds r a) rules of
             None \<Rightarrow> neutralColor
           | Some r \<Rightarrow> color r))"

text \<open>
  The aggregate as the specification words it: the arithmetic mean of the present
  samples, absent when no sample is present.
\<close>

definition spec_aggregate :: "real option list \<Rightarrow> real option" where
  "spec_aggregate samples =
     (let present = List.map_filter (\<lambda>x. x) samples
      in if present = [] then None
         else Some (sum_list present / real (length present)))"

subsection \<open>The built-in palette\<close>

definition getTemperatureColor :: "real \<Rightarrow> string" where
  "getTemperatureColor avgTemp =
     (if avgTemp < 10 then ''#ff0000''
      else if avgTemp \<ge> 10 \<and> avgTemp < 25 then ''#0000ff''
      else ''#00ff00'')"

subsection \<open>\<open>calculateCentroid\<close>\<close>

text \<open>
  \<open>coords.slice(0, -1)\<close> is \<^const>\<open>butlast\<close>; the \<open>forEach\<close> accumulates both
  sums. \<open>count\<close> is \<open>coords.length - 1\<close>, which is \<open>-1\<close> for an empty array. For a
  one-element array the source divides zero by zero; the model's quotient is \<open>0\<close>
  there, and no statement below relies on it.
\<close>

definition calculateCentroid :: "ring \<Rightarrow> lnglat" where
  "calculateCentroid coords =
     (let (x, y) = foldl (\<lambda>(x, y) (lng, lat). (x + lng, y + lat)) (0, 0) (butlast coords);
          count = int (length coords) - 1
      in (x / real_of_int count, y / real_of_int count))"

subsection \<open>The weather provider and \<open>getTemperatureForCoordinate\<close>\<close>

text \<open>
  What one request to the provider can end in: \<open>fetch\<close> rejects, \<open>res.json()\<close>
  rejects, or a body is parsed. Of the body only \<open>data?.hourly?.temperature_2m\<close> is
  read: it is either not an array, or an array of JSON values. An entry of the array is
  \<open>null\<close> (\<open>None\<close>), a number, or a value of another type (a string, a boolean,
  an array or an object); the code does not look at the type of the entry it returns.
  The provider is a function from the query \<open>(latitude, longitude)\<close> to the outcome.
\<close>

datatype json_value = JNumber real | JOther

datatype temperature_2m = NotAnArray | TempArray "json_value option list"

datatype fetch_outcome = FetchRejected | JsonRejected | Body temperature_2m

type_synonym provider = "real \<times> real \<Rightarrow> fetch_outcome"

definition getTemperatureForCoordinate :: "provider \<Rightarrow> real \<Rightarrow> real \<Rightarrow> json_value option" where
  "getTemperatureForCoordinate net lat lon =
     (case net (lat, lon) of
        FetchRejected \<Rightarrow> None
      | JsonRejected \<Rightarrow> None
      | Body NotAnArray \<Rightarrow> None
      | Body (TempArray temps) \<Rightarrow>
          if length temps > 0 then temps ! 0 else None)"

text \<open>A provider that answers every query with the one hourly value \<open>t\<close>.\<close>

definition steadyProvider :: "real \<Rightarrow> provider" where
  "steadyProvider t = (\<lambda>q. Body (TempArray [Some (JNumber t)]))"

subsection \<open>The sampling loop of \<open>handlePolygonDraw\<close>\<close>

text \<open>
  The loop keeps the array \<open>temperatures\<close>; \<open>fetched\<close> records the queries it sent,
  in order.
\<close>

record sampling =
  temperatures :: "json_value list"
  fetched :: "(real \<times> real) list"

fun sampleLoop :: "provider \<Rightarrow> lnglat list \<Rightarrow> sampling \<Rightarrow> sampling" where
  "sampleLoop net [] acc = acc"
| "sampleLoop net ((lng, lat) # rest) acc =
     (let temp = getTemperatureForCoordinate net lat lng;
          acc' = acc\<lparr>fetched := fetched acc @ [(lat, lng)]\<rparr>
      in case temp of
           None \<Rightarrow> sampleLoop net rest acc'
         | Some t \<Rightarrow> sampleLoop net rest (acc'\<lparr>temperatures := temperatures acc' @ [t]\<rparr>))"

text \<open>The sample of one vertex, absent when its request fails.\<close>

definition vertexSample :: "provider \<Rightarrow> lnglat \<Rightarrow> json_value option" where
  "vertexSample net v = getTemperatureForCoordinate net (snd v) (fst v)"

subsection \<open>The store and the rest of \<open>handlePolygonDraw\<close>\<close>

text \<open>
  The average \<open>temperatures.reduce((sum, t) => sum + t, 0) / temperatures.length\<close>.
  While the sum and the entry are numbers, \<open>+\<close> adds them. Once an entry is not a
  number, \<open>+\<close> coerces its operands and may concatenate strings, and the quotient is
  some number or NaN that the model does not determine: \<open>Unmodelled\<close>.
\<close>

datatype js_number = Number real | Unmodelled

fun addTemperature :: "js_number \<Rightarrow> json_value \<Rightarrow> js_number" where
  "addTemperature (Number acc) (JNumber t) = Number (acc + t)"
| "addTemperature acc t = Unmodelled"

fun divideByLength :: "js_number \<Rightarrow> nat \<Rightarrow> js_number" where
  "divideByLength (Number acc) n = Number (acc / real n)"
| "divideByLength Unmodelled n = Unmodelled"

definition averageTemperature :: "json_value list \<Rightarrow> js_number" where
  "averageTemperature temps = divideByLength (foldl addTemperature (Number 0) temps) (length temps)"

text \<open>
  What the map shows for a polygon id: the GeoJSON source with its fill layer (the
  outline layer is constant), and the marker at the centroid. The marker's text is the
  average formatted with two decimals; the model keeps the average itself. A colour is
  \<open>None\<close> when it is the palette colour of an average the model does not determine.
\<close>

record rendered =
  source_coordinates :: ring
  fill_color :: "string option"

record marker =
  marker_lnglat :: lnglat
  marker_color :: "string option"
  marker_avgTemp :: js_number

record polygon_entry =
  avgTemp :: js_number
  centroid :: lnglat

record map_state =
  polygonAvgTemp :: "js_number option"
  polygonCentroid :: "lnglat option"
  polygonData :: "string \<rightharpoonup> polygon_entry"
  layers :: "string \<rightharpoonup> rendered"
  markers :: "string \<rightharpoonup> marker"

text \<open>
  \<open>renderPolygonToMap\<close> removes the layers and the source of the id and adds them
  again with the new ring and colour. The handlers are registered on the map after
  \<open>mapRef.current\<close> is set, so the map is present whenever they run.
\<close>

definition renderPolygonToMap ::
  "string \<Rightarrow> ring \<Rightarrow> string option \<Rightarrow> map_state \<Rightarrow> map_state" where
  "renderPolygonToMap id' coordinates color' s =
     s\<lparr>layers := (layers s)(id' \<mapsto> \<lparr>source_coordinates = coordinates, fill_color = color'\<rparr>)\<rparr>"

text \<open>
  The part of \<open>handlePolygonDraw\<close> after the loop. It contains no \<open>await\<close>, so it
  runs in one piece once the last request of the loop has settled.
\<close>

definition applyTemperatures ::
  "ring \<Rightarrow> string \<Rightarrow> json_value list \<Rightarrow> map_state \<Rightarrow> map_state" where
  "applyTemperatures coordinates polygonId temps s =
     (if length temps > 0 then
        let avg = averageTemperature temps;
            s1 = s\<lparr>polygonAvgTemp := Some avg\<rparr>;
            c = calculateCentroid coordinates;
            s2 = s1\<lparr>polygonCentroid := Some c\<rparr>;
            polygonColor =
              (case avg of Number a \<Rightarrow> Some (getTemperatureColor a) | Unmodelled \<Rightarrow> None);
            s3 = renderPolygonToMap polygonId coordinates polygonColor s2;
            s4 = s3\<lparr>markers := (markers s3)(polygonId \<mapsto>
                   \<lparr>marker_lnglat = c, marker_color = polygonColor, marker_avgTemp = avg\<rparr>)\<rparr>
        in s4\<lparr>polygonData := (polygonData s4)(polygonId \<mapsto> \<lparr>avgTemp = avg, centroid = c\<rparr>)\<rparr>
      else s\<lparr>polygonAvgTemp := None, polygonCentroid := None\<rparr>)"

text \<open>
  A whole call of \<open>handlePolygonDraw\<close> that nothing interleaves with: the new store
  and the queries sent.
\<close>

definition handlePolygonDraw ::
  "provider \<Rightarrow> ring \<Rightarrow> string \<Rightarrow> map_state \<Rightarrow> map_state \<times> (real \<times> real) list" where
  "handlePolygonDraw net coordinates polygonId s =
     (let uniqueCoords = butlast coordinates;
          r = sampleLoop net uniqueCoords \<lparr>temperatures = [], fetched = []\<rparr>
      in (applyTemperatures coordinates polygonId (temperatures r) s, fetched r))"

text \<open>The store before any polygon is drawn.\<close>

definition emptyMap :: map_state where
  "emptyMap = \<lparr>polygonAvgTemp = None, polygonCentroid = None, polygonData = Map.empty,
     layers = Map.empty, markers = Map.empty\<rparr>"

subsection \<open>Draw events and passes in flight\<close>

text \<open>
  A feature of a draw event: its id, if any, and its geometry. Of a polygon only the
  exterior ring \<open>coordinates[0]\<close> is read.
\<close>

datatype geometry = Polygon ring | OtherGeometry

record feature =
  feature_id :: "string option"
  feature_geometry :: geometry

text \<open>\<open>feature.id?.toString()\<close> followed by \<open>if (id)\<close>: an empty string is falsy.\<close>

definition featureId :: "feature \<Rightarrow> string option" where
  "featureId f =
     (case feature_id f of
        None \<Rightarrow> None
      | Some i \<Rightarrow> if i = [] then None else Some i)"

text \<open>
  \<open>handlePolygonDraw\<close> is asynchronous and the handlers do not wait for it. A call
  whose loop has at least one vertex is in flight until its last request settles; its
  loop touches only its own \<open>temperatures\<close>, so the calls in flight interact only
  through the order in which they finish. A call with no vertex to sample has no
  \<open>await\<close> and finishes inside the event.
\<close>

record app_state =
  store :: map_state
  inflight :: "(ring \<times> string) list"

definition startDraw :: "provider \<Rightarrow> ring \<Rightarrow> string \<Rightarrow> app_state \<Rightarrow> app_state" where
  "startDraw net coordinates polygonId st =
     (if butlast coordinates = [] then
        st\<lparr>store := fst (handlePolygonDraw net coordinates polygonId (store st))\<rparr>
      else st\<lparr>inflight := inflight st @ [(coordinates, polygonId)]\<rparr>)"

text \<open>The \<open>draw.create\<close> handler reads \<open>e.features[0]\<close>.\<close>

definition onDrawCreate :: "provider \<Rightarrow> feature \<Rightarrow> app_state \<Rightarrow> app_state" where
  "onDrawCreate net polygon st =
     (case feature_geometry polygon of
        OtherGeometry \<Rightarrow> st
      | Polygon coordinates \<Rightarrow>
          (case featureId polygon of
             None \<Rightarrow> st
           | Some i \<Rightarrow> startDraw net coordinates i st))"

text \<open>The \<open>draw.update\<close> handler visits every feature of the event.\<close>

fun onDrawUpdate :: "provider \<Rightarrow> feature list \<Rightarrow> app_state \<Rightarrow> app_state" where
  "onDrawUpdate net [] st = st"
| "onDrawUpdate net (f # fs) st =
     onDrawUpdate net fs
       (case feature_geometry f of
          OtherGeometry \<Rightarrow> st
        | Polygon coordinates \<Rightarrow>
            (case featureId f of
               None \<Rightarrow> st
             | Some i \<Rightarrow> startDraw net coordinates i st))"

text \<open>The \<open>k\<close>-th call in flight finishes: its result is written to the store.\<close>

definition finishDraw :: "provider \<Rightarrow> nat \<Rightarrow> app_state \<Rightarrow> app_state" where
  "finishDraw net k st =
     (if k < length (inflight st) then
        let (coordinates, polygonId) = inflight st ! k
        in st\<lparr>store := fst (handlePolygonDraw net coordinates polygonId (store st)),
              inflight := take k (inflight st) @ drop (Suc k) (inflight st)\<rparr>
      else st)"

text \<open>What the store holds about one polygon.\<close>

definition derived ::
  "map_state \<Rightarrow> string \<Rightarrow> polygon_entry option \<times> rendered option \<times> marker option" where
  "derived s i = (polygonData s i, layers s i, markers s i)"

subsection \<open>Configuration held outside the map view\<close>

text \<open>
  The threshold rules live in the sidebar's data sources, and the per-polygon
  configuration in the application component, which passes it to the map view as the
  property \<open>configByPolygon\<close>. \<open>dashboardDraw\<close> is a draw event seen from the whole
  application: the handler is a closure of the map view and reads neither.
\<close>

record data_source =
  ds_id :: string
  selectedField :: string
  thresholds :: "threshold_rule list"

record polygon_config =
  dataSource :: "string option"
  threshold :: "real option"

record dashboard =
  dataSources :: "data_source list"
  configByPolygon :: "string \<rightharpoonup> polygon_config"
  mapView :: map_state

definition dashboardDraw :: "provider \<Rightarrow> ring \<Rightarrow> string \<Rightarrow> dashboard \<Rightarrow> dashboard" where
  "dashboardDraw net coordinates polygonId d =
     d\<lparr>mapView := fst (handlePolygonDraw net coordinates polygonId (mapView d))\<rparr>"

section \<open>Timeline: properties\<close>

lemma length_concat_map_upt:
  "length (concat (map (\<lambda>d. map (f d) [0..<m]) [0..<n])) = n * m"
  by (induction n) simp_all


lemma length_generateTimelineData: "length (generateTimelineData z now) = 720"
  by (simp add: generateTimelineData_def Let_def length_concat_map_upt)

lemma totalHours_eq: "totalHours = 720"
  by (simp add: totalHours_def length_generateTimelineData)

lemma getMousePosition_range:
  assumes "getMousePosition r x = Some v"
  shows "0 \<le> v \<and> v \<le> totalHours - 1"
proof (cases r)
  case None
  with assms show ?thesis by (auto simp: getMousePosition_def totalHours_eq)
next
  case (Some rect)
  define p where "p = max 0 (min 100 (((x - left rect) / width rect) * 100))"
  from assms Some have w: "width rect \<noteq> 0" and v: "v = percentToValue p"
    by (auto simp: getMousePosition_def Let_def p_def split: if_splits)
  have p: "0 \<le> p" "p \<le> 100" by (simp_all add: p_def)
  have "0 \<le> p / 100 * 719" using p by simp
  then have lo: "0 \<le> round (p / 100 * 719)" by (simp add: round_def)
  have "p / 100 * 719 \<le> 719" using p by simp
  then have "round (p / 100 * 719) \<le> round (719::real)" by (rule round_mono)
  then have hi: "round (p / 100 * 719) \<le> 719" by simp
  from lo hi v show ?thesis by (simp add: percentToValue_def totalHours_eq)
qed

lemma step_tl_inv:
  assumes "tl_inv s" and "wf_event e"
  shows "tl_inv (step s e)"
  using assms
  by (cases e)
     (auto simp: tl_inv_def totalHours_eq todayIndex_def handleMouseDown_def
        handleMouseMove_def handleMouseUp_def handleSliderClick_def goToNow_def
        goToToday_def setMode_def Let_def split: option.splits)

text \<open>
  A drag move sets the bound handle to the clamped index and nothing else: the start
  handle to the index clamped to \<open>[0, rangeEnd - 1]\<close>, the end handle to the index
  clamped to \<open>[rangeStart + 1, N - 1]\<close>, the single handle to the index clamped to
  \<open>[0, N - 1]\<close>.
\<close>

lemma drag_move_is_clamp:
  assumes "dragState s = Some d"
  shows "mode s = ModeSingle \<Longrightarrow>
           handleMouseMove s v = s\<lparr>singleHandle := max 0 (min (totalHours - 1) v)\<rparr>"
    and "mode s = ModeRange \<Longrightarrow> dtype d = DragStart \<Longrightarrow>
           handleMouseMove s v = s\<lparr>rangeStart := max 0 (min (rangeEnd s - 1) v)\<rparr>"
    and "mode s = ModeRange \<Longrightarrow> dtype d = DragEnd \<Longrightarrow>
           handleMouseMove s v = s\<lparr>rangeEnd := max (rangeStart s + 1) (min (totalHours - 1) v)\<rparr>"
  using assms by (simp_all add: handleMouseMove_def)

lemma trace_tl_inv:
  "tl_inv s \<Longrightarrow> list_all wf_event es \<Longrightarrow> list_all tl_inv (trace s es)"
  by (induction es arbitrary: s) (simp_all add: step_tl_inv)

lemma initialState_tl_inv: "0 \<le> h \<Longrightarrow> h \<le> 23 \<Longrightarrow> tl_inv (initialState h)"
  by (simp add: tl_inv_def initialState_def todayIndex_def totalHours_eq)

text \<open>
  Claim C2. From a state that satisfies the selection invariant, every state committed
  along a run of drag moves, clicks, shortcuts and mode switches has
  \<open>rangeStart < rangeEnd\<close>, with \<open>rangeStart\<close> in \<open>[0, rangeEnd - 1]\<close>,
  \<open>rangeEnd\<close> in \<open>[rangeStart + 1, N - 1]\<close> and \<open>singleHandle\<close> in
  \<open>[0, N - 1]\<close>, where \<open>N = 720\<close> (lemma \<open>totalHours_eq\<close>). The state the
  component mounts with satisfies the invariant (lemma \<open>initialState_tl_inv\<close>).
\<close>

theorem range_invariant:
  assumes "tl_inv s" and "list_all wf_event es"
  shows "list_all (\<lambda>s'. rangeStart s' < rangeEnd s' \<and>
            0 \<le> rangeStart s' \<and> rangeStart s' \<le> rangeEnd s' - 1 \<and>
            rangeStart s' + 1 \<le> rangeEnd s' \<and> rangeEnd s' \<le> totalHours - 1 \<and>
            0 \<le> singleHandle s' \<and> singleHandle s' \<le> totalHours - 1) (trace s es)"
proof -
  have "list_all tl_inv (trace s es)"
    using assms by (rule trace_tl_inv)
  then show ?thesis
    by (rule list.pred_mono_strong) (simp add: tl_inv_def)
qed

theorem range_invariant_witness:
  "tl_inv (initialState 9) \<and>
   list_all wf_event [SetMode ModeRange, MouseDown DragStart 0, MouseMove 5000, MouseUp,
      Click 0, GoToNow 23, MouseDown DragEnd 0, MouseMove (- 7), MouseUp, SetMode ModeSingle, Click 719] \<and>
   map (\<lambda>s. (rangeStart s, rangeEnd s, singleHandle s))
     (trace (initialState 9) [SetMode ModeRange, MouseDown DragStart 0, MouseMove 5000, MouseUp,
      Click 0, GoToNow 23, MouseDown DragEnd 0, MouseMove (- 7), MouseUp, SetMode ModeSingle, Click 719])
   = [(360, 384, 369), (360, 384, 369), (383, 384, 369), (383, 384, 369), (0, 384, 369),
      (383, 407, 369), (383, 407, 369), (383, 384, 369), (383, 384, 369), (383, 384, 369), (383, 384, 719)]"
  using range_invariant [of "initialState 9" "[SetMode ModeRange, MouseDown DragStart 0, MouseMove 5000, MouseUp,
      Click 0, GoToNow 23, MouseDown DragEnd 0, MouseMove (- 7), MouseUp, SetMode ModeSingle, Click 719]"]
  by (simp add: tl_inv_def initialState_def todayIndex_def totalHours_eq handleMouseDown_def
        handleMouseMove_def handleMouseUp_def handleSliderClick_def goToNow_def
        goToToday_def setMode_def Let_def)

text \<open>
  Claim C3, as the code has it. A click while no drag is active sets the single handle
  to the clicked index in single mode. In range mode it moves \<open>rangeStart\<close> when the
  click is strictly nearer to it, and \<open>rangeEnd\<close> otherwise: a tie moves
  \<open>rangeEnd\<close>. For an index from the track and a state that satisfies the invariant
  the clamp changes nothing and the moved handle lands on the index.
\<close>

theorem click_moves_nearer_handle:
  assumes "dragState s = None"
  shows "(mode s = ModeSingle \<longrightarrow> handleSliderClick s i = s\<lparr>singleHandle := i\<rparr>) \<and>
    (mode s = ModeRange \<and> \<bar>i - rangeStart s\<bar> < \<bar>i - rangeEnd s\<bar> \<longrightarrow>
       handleSliderClick s i = s\<lparr>rangeStart := max 0 (min (rangeEnd s - 1) i)\<rparr> \<and>
       (tl_inv s \<and> 0 \<le> i \<longrightarrow> handleSliderClick s i = s\<lparr>rangeStart := i\<rparr>)) \<and>
    (mode s = ModeRange \<and> \<bar>i - rangeEnd s\<bar> \<le> \<bar>i - rangeStart s\<bar> \<longrightarrow>
       handleSliderClick s i = s\<lparr>rangeEnd := max (rangeStart s + 1) (min (totalHours - 1) i)\<rparr> \<and>
       (tl_inv s \<and> i \<le> totalHours - 1 \<longrightarrow> handleSliderClick s i = s\<lparr>rangeEnd := i\<rparr>))"
proof (intro conjI impI)
  assume "mode s = ModeSingle"
  with assms show "handleSliderClick s i = s\<lparr>singleHandle := i\<rparr>"
    by (simp add: handleSliderClick_def)
next
  assume a: "mode s = ModeRange \<and> \<bar>i - rangeStart s\<bar> < \<bar>i - rangeEnd s\<bar>"
  with assms show c: "handleSliderClick s i = s\<lparr>rangeStart := max 0 (min (rangeEnd s - 1) i)\<rparr>"
    by (simp add: handleSliderClick_def Let_def)
  assume "tl_inv s \<and> 0 \<le> i"
  with a have "max 0 (min (rangeEnd s - 1) i) = i"
    by (auto simp: tl_inv_def)
  with c show "handleSliderClick s i = s\<lparr>rangeStart := i\<rparr>" by simp
next
  assume a: "mode s = ModeRange \<and> \<bar>i - rangeEnd s\<bar> \<le> \<bar>i - rangeStart s\<bar>"
  with assms show c: "handleSliderClick s i =
      s\<lparr>rangeEnd := max (rangeStart s + 1) (min (totalHours - 1) i)\<rparr>"
    by (simp add: handleSliderClick_def Let_def)
  assume "tl_inv s \<and> i \<le> totalHours - 1"
  with a have "max (rangeStart s + 1) (min (totalHours - 1) i) = i"
    by (auto simp: tl_inv_def)
  with c show "handleSliderClick s i = s\<lparr>rangeEnd := i\<rparr>" by simp
qed

theorem click_moves_nearer_handle_witness:
  "dragState (setMode (initialState 9) ModeRange) = None \<and>
   handleSliderClick (setMode (initialState 9) ModeRange) 372
     = (setMode (initialState 9) ModeRange)\<lparr>rangeEnd := 372\<rparr> \<and>
   handleSliderClick (setMode (initialState 9) ModeRange) 371
     = (setMode (initialState 9) ModeRange)\<lparr>rangeStart := 371\<rparr> \<and>
   handleSliderClick (initialState 9) 371 = (initialState 9)\<lparr>singleHandle := 371\<rparr>"
  using click_moves_nearer_handle [of "setMode (initialState 9) ModeRange" 372]
    click_moves_nearer_handle [of "setMode (initialState 9) ModeRange" 371]
    click_moves_nearer_handle [of "initialState 9" 371]
  by (simp add: setMode_def initialState_def todayIndex_def totalHours_eq tl_inv_def)

text \<open>
  The claim as the specification states it fails: on a tie the click moves
  \<open>rangeEnd\<close> and leaves \<open>rangeStart\<close> where it was.
\<close>

theorem click_tie_counterexample:
  "\<bar>372 - rangeStart (setMode (initialState 9) ModeRange)\<bar>
     = \<bar>372 - rangeEnd (setMode (initialState 9) ModeRange)\<bar> \<and>
   dragState (setMode (initialState 9) ModeRange) = None \<and>
   rangeStart (handleSliderClick (setMode (initialState 9) ModeRange) 372) = 360 \<and>
   rangeEnd (handleSliderClick (setMode (initialState 9) ModeRange) 372) = 372"
  by (simp add: handleSliderClick_def setMode_def initialState_def todayIndex_def
        totalHours_eq Let_def)

lemma step_other_mode:
  assumes "\<not> switches_mode e"
  shows "mode (step s e) = mode s \<and>
         (mode s = ModeRange \<longrightarrow> singleHandle (step s e) = singleHandle s) \<and>
         (mode s = ModeSingle \<longrightarrow> rangeStart (step s e) = rangeStart s \<and>
            rangeEnd (step s e) = rangeEnd s)"
  using assms
  by (cases e)
     (auto simp: handleMouseDown_def handleMouseMove_def handleMouseUp_def
        handleSliderClick_def goToNow_def goToToday_def Let_def split: option.splits)

lemma run_other_mode:
  assumes "list_all (\<lambda>e. \<not> switches_mode e) es"
  shows "mode (run s es) = mode s \<and>
         (mode s = ModeRange \<longrightarrow> singleHandle (run s es) = singleHandle s) \<and>
         (mode s = ModeSingle \<longrightarrow> rangeStart (run s es) = rangeStart s \<and>
            rangeEnd (run s es) = rangeEnd s)"
  using assms
proof (induction es arbitrary: s)
  case Nil
  then show ?case by simp
next
  case (Cons e es)
  then have e: "\<not> switches_mode e" and es: "list_all (\<lambda>e. \<not> switches_mode e) es"
    by simp_all
  from step_other_mode [OF e, of s] Cons.IH [OF es, of "step s e"]
  show ?case by (cases "mode s") simp_all
qed

text \<open>
  Claim C8. A mode switch changes none of the three handles, and switching there and
  back gives the same state. The handles of the inactive mode also survive whatever
  happens in the other mode in between: after \<open>Single \<rightarrow> Range\<close>, any events, and
  \<open>Range \<rightarrow> Single\<close> the single handle is where it was, and likewise for the range
  handles.
\<close>

theorem mode_switch_keeps_handles:
  "singleHandle (setMode s m) = singleHandle s \<and>
   rangeStart (setMode s m) = rangeStart s \<and>
   rangeEnd (setMode s m) = rangeEnd s \<and>
   setMode (setMode (setMode s ModeSingle) ModeRange) ModeSingle = setMode s ModeSingle \<and>
   setMode (setMode (setMode s ModeRange) ModeSingle) ModeRange = setMode s ModeRange \<and>
   (list_all (\<lambda>e. \<not> switches_mode e) es \<longrightarrow>
      singleHandle (setMode (run (setMode s ModeRange) es) ModeSingle) = singleHandle s \<and>
      rangeStart (setMode (run (setMode s ModeSingle) es) ModeRange) = rangeStart s \<and>
      rangeEnd (setMode (run (setMode s ModeSingle) es) ModeRange) = rangeEnd s)"
proof -
  have a: "singleHandle (setMode s m) = singleHandle s \<and>
   rangeStart (setMode s m) = rangeStart s \<and>
   rangeEnd (setMode s m) = rangeEnd s \<and>
   setMode (setMode (setMode s ModeSingle) ModeRange) ModeSingle = setMode s ModeSingle \<and>
   setMode (setMode (setMode s ModeRange) ModeSingle) ModeRange = setMode s ModeRange"
    by (simp add: setMode_def)
  have b: "singleHandle (setMode (run (setMode s ModeRange) es) ModeSingle) = singleHandle s \<and>
      rangeStart (setMode (run (setMode s ModeSingle) es) ModeRange) = rangeStart s \<and>
      rangeEnd (setMode (run (setMode s ModeSingle) es) ModeRange) = rangeEnd s"
    if h: "list_all (\<lambda>e. \<not> switches_mode e) es"
    using run_other_mode [OF h, of "setMode s ModeRange"]
      run_other_mode [OF h, of "setMode s ModeSingle"]
    by (simp add: setMode_def)
  from a b show ?thesis by blast
qed

theorem mode_switch_keeps_handles_witness:
  "list_all (\<lambda>e. \<not> switches_mode e) [MouseDown DragStart 3, MouseMove 100, MouseUp, Click 700, GoToToday] \<and>
   singleHandle (setMode (run (setMode (initialState 9) ModeRange)
      [MouseDown DragStart 3, MouseMove 100, MouseUp, Click 700, GoToToday]) ModeSingle) = 369 \<and>
   rangeStart (setMode (run (setMode (initialState 9) ModeSingle)
      [MouseDown DragStart 3, MouseMove 100, MouseUp, Click 700, GoToToday]) ModeRange) = 360 \<and>
   rangeEnd (setMode (run (setMode (initialState 9) ModeSingle)
      [MouseDown DragStart 3, MouseMove 100, MouseUp, Click 700, GoToToday]) ModeRange) = 384"
  using mode_switch_keeps_handles [of "initialState 9" ModeRange
      "[MouseDown DragStart 3, MouseMove 100, MouseUp, Click 700, GoToToday]"]
  by (simp add: initialState_def todayIndex_def)








section \<open>Map view: properties\<close>

subsection \<open>Classification\<close>

lemma foldl_plus_sum_list: "foldl (\<lambda>a b. a + b) (a::real) ws = a + sum_list ws"
  by (induction ws arbitrary: a) simp_all

lemma rulesLoop_find:
  "rulesLoop avg rules =
     (case find (\<lambda>r. rule_holds r avg) rules of None \<Rightarrow> ''#cccccc'' | Some r \<Rightarrow> color r)"
proof (induction rules)
  case Nil
  show ?case by simp
next
  case (Cons r rs)
  then show ?case
    by (cases "operator r") (simp_all add: rule_holds_def)
qed

lemma spec_classify_rulesLoop: "spec_classify (Some a) rules = rulesLoop a rules"
  unfolding spec_classify_def neutralColor_def
  by (simp add: rulesLoop_find)

text \<open>
  Claim C4. \<open>getPolygonColor\<close> returns the neutral colour \<open>#cccccc\<close> for absent
  or empty data without looking at the rules; otherwise it returns what the
  specification's \<open>classify\<close> returns for the mean of the data: the colour of the first
  rule in list order whose comparison holds, and the neutral colour when none does.
  A threshold rule has one operator, so the middle rule of the example, "at least 10
  and below 25", is the rule \<open>< 25\<close> placed after \<open>< 10\<close>; the built-in palette
  \<open>getTemperatureColor\<close> has the same three bands written out. Both send 9.999 to the
  first colour, 10 and 24.999 to the second and 25 to the third.
\<close>

theorem getPolygonColor_first_match:
  "getPolygonColor None rules = neutralColor \<and>
   getPolygonColor (Some []) rules = neutralColor \<and>
   (ws \<noteq> [] \<longrightarrow>
      getPolygonColor (Some ws) rules
        = spec_classify (Some (sum_list ws / real (length ws))) rules) \<and>
   map (\<lambda>t. getPolygonColor (Some [t])
          [\<lparr>operator = OpLt, rule_value = 10, color = A\<rparr>,
           \<lparr>operator = OpLt, rule_value = 25, color = B\<rparr>,
           \<lparr>operator = OpGe, rule_value = 25, color = C\<rparr>])
       [9999 / 1000, 10, 24999 / 1000, 25] = [A, B, B, C] \<and>
   map getTemperatureColor [9999 / 1000, 10, 24999 / 1000, 25]
     = [''#ff0000'', ''#0000ff'', ''#0000ff'', ''#00ff00'']"
proof -
  have a: "getPolygonColor None rules = neutralColor"
    "getPolygonColor (Some []) rules = neutralColor"
    by (simp_all add: getPolygonColor_def neutralColor_def)
  have b: "getPolygonColor (Some ws) rules
        = spec_classify (Some (sum_list ws / real (length ws))) rules" if "ws \<noteq> []"
    using that
    by (simp add: getPolygonColor_def spec_classify_rulesLoop Let_def foldl_plus_sum_list)
  have c: "map (\<lambda>t. getPolygonColor (Some [t])
          [\<lparr>operator = OpLt, rule_value = 10, color = A\<rparr>,
           \<lparr>operator = OpLt, rule_value = 25, color = B\<rparr>,
           \<lparr>operator = OpGe, rule_value = 25, color = C\<rparr>])
       [9999 / 1000, 10, 24999 / 1000, 25] = [A, B, B, C]"
    by (simp add: getPolygonColor_def Let_def)
  have d: "map getTemperatureColor [9999 / 1000, 10, 24999 / 1000, 25]
     = [''#ff0000'', ''#0000ff'', ''#0000ff'', ''#00ff00'']"
    by (simp add: getTemperatureColor_def)
  from a b c d show ?thesis by blast
qed

theorem getPolygonColor_first_match_witness:
  "[20, 30] \<noteq> ([]::real list) \<and>
   getPolygonColor (Some [20, 30])
     [\<lparr>operator = OpGe, rule_value = 30, color = ''#111111''\<rparr>,
      \<lparr>operator = OpGe, rule_value = 20, color = ''#222222''\<rparr>,
      \<lparr>operator = OpGt, rule_value = 0, color = ''#333333''\<rparr>] = ''#222222'' \<and>
   getPolygonColor (Some [20, 30])
     [\<lparr>operator = OpEq, rule_value = 20, color = ''#111111''\<rparr>] = ''#cccccc''"
  using getPolygonColor_first_match [of
     "[\<lparr>operator = OpGe, rule_value = 30, color = ''#111111''\<rparr>,
      \<lparr>operator = OpGe, rule_value = 20, color = ''#222222''\<rparr>,
      \<lparr>operator = OpGt, rule_value = 0, color = ''#333333''\<rparr>]" "[20, 30]"]
    getPolygonColor_first_match [of
     "[\<lparr>operator = OpEq, rule_value = 20, color = ''#111111''\<rparr>]" "[20, 30]"]
  by (simp add: spec_classify_def neutralColor_def rule_holds_def)

text \<open>
  The order of the rules matters: with the sidebar's default list, where the rule
  \<open>\<ge> 10\<close> stands before \<open>\<ge> 25\<close>, the value 25 takes the colour of \<open>\<ge> 10\<close>.
\<close>

lemma sidebar_default_rules_at_25:
  "getPolygonColor (Some [25])
     [\<lparr>operator = OpLt, rule_value = 10, color = ''#FF0000''\<rparr>,
      \<lparr>operator = OpGe, rule_value = 10, color = ''#0000FF''\<rparr>,
      \<lparr>operator = OpGe, rule_value = 25, color = ''#00FF00''\<rparr>] = ''#0000FF''"
  by (simp add: getPolygonColor_def)

subsection \<open>Centroid\<close>

lemma foldl_pair_sum:
  "foldl (\<lambda>(x, y) (lng, lat). (x + lng, y + lat)) (a, b) vs
     = (a + sum_list (map fst vs), b + sum_list (map snd vs :: real list))"
  by (induction vs arbitrary: a b) (simp_all add: case_prod_beta add.assoc)

text \<open>
  Claim C6, as the code has it. \<open>calculateCentroid\<close> drops the last element of its
  argument, whatever it is, and returns the per-coordinate mean of the rest. For a ring
  passed with its closing duplicate this is the mean of the distinct vertices.
\<close>

theorem centroid_of_closed_ring:
  assumes "vs \<noteq> []"
  shows "calculateCentroid (vs @ [c])
     = (sum_list (map fst vs) / real (length vs), sum_list (map snd vs) / real (length vs))"
  using assms by (simp add: calculateCentroid_def foldl_pair_sum)

theorem centroid_of_closed_ring_witness:
  "[(0, 0), (3, 0), (0, 3)] \<noteq> ([]::ring) \<and>
   calculateCentroid ([(0, 0), (3, 0), (0, 3)] @ [(0, 0)]) = (1, 1)"
  using centroid_of_closed_ring [of "[(0, 0), (3, 0), (0, 3)]" "(0, 0)"]
  by simp

text \<open>
  The result is not independent of the closing duplicate: for the same three distinct
  vertices it is their mean when the duplicate is present, and the mean of the first two
  over a count of two when it is not.
\<close>

theorem centroid_open_ring_counterexample:
  "distinct [(0, 0), (3, 0), (0, 3 :: real) :: lnglat] \<and>
   calculateCentroid [(0, 0), (3, 0), (0, 3), (0, 0)] = (1, 1) \<and>
   calculateCentroid [(0, 0), (3, 0), (0, 3)] = (3 / 2, 0)"
  by (simp add: calculateCentroid_def)

subsection \<open>Sampling\<close>

lemma sampleLoop_eq:
  "sampleLoop net vs acc =
     acc\<lparr>temperatures := temperatures acc @ List.map_filter (vertexSample net) vs,
         fetched := fetched acc @ map (\<lambda>(lng, lat). (lat, lng)) vs\<rparr>"
proof (induction vs arbitrary: acc)
  case Nil
  show ?case by (simp add: List.map_filter_simps)
next
  case (Cons v vs)
  obtain lng lat where v: "v = (lng, lat)" by (cases v)
  show ?case
    by (cases "getTemperatureForCoordinate net lat lng")
       (simp_all add: v Cons.IH List.map_filter_simps vertexSample_def)
qed

lemma handlePolygonDraw_fetched:
  "snd (handlePolygonDraw net coords p s) = map (\<lambda>(lng, lat). (lat, lng)) (butlast coords)"
  by (simp add: handlePolygonDraw_def Let_def sampleLoop_eq)

lemma handlePolygonDraw_store:
  "fst (handlePolygonDraw net coords p s)
     = applyTemperatures coords p (List.map_filter (vertexSample net) (butlast coords)) s"
  by (simp add: handlePolygonDraw_def Let_def sampleLoop_eq)

lemma failed_request_absent:
  assumes "net (lat, lon) \<in> {FetchRejected, JsonRejected, Body NotAnArray,
             Body (TempArray []), Body (TempArray (None # rest))}"
  shows "getTemperatureForCoordinate net lat lon = None"
  using assms by (auto simp: getTemperatureForCoordinate_def)

lemma vertexSample_other:
  assumes "v \<noteq> (lon, lat)"
  shows "vertexSample (net((lat, lon) := out)) v = vertexSample net v"
  using assms by (cases v) (auto simp: vertexSample_def getTemperatureForCoordinate_def)

lemma foldl_addTemperature_numbers:
  "foldl addTemperature (Number a) (map JNumber rs) = Number (a + sum_list rs)"
  by (induction rs arbitrary: a) (simp_all add: add.assoc)

lemma averageTemperature_numbers:
  "averageTemperature (map JNumber rs) = Number (sum_list rs / real (length rs))"
  by (simp add: averageTemperature_def foldl_addTemperature_numbers)

lemma foldl_addTemperature_Unmodelled:
  "foldl addTemperature Unmodelled temps = Unmodelled"
  by (induction temps) simp_all

lemma averageTemperature_other:
  assumes "JOther \<in> set temps"
  shows "averageTemperature temps = Unmodelled"
proof -
  have "foldl addTemperature acc temps = Unmodelled" for acc
    using assms
  proof (induction temps arbitrary: acc)
    case Nil
    then show ?case by simp
  next
    case (Cons t ts)
    show ?case
    proof (cases "t = JOther")
      case True
      then show ?thesis
        by (cases acc) (simp_all add: foldl_addTemperature_Unmodelled)
    next
      case False
      with Cons.prems have "JOther \<in> set ts" by simp
      then show ?thesis using Cons.IH by simp
    qed
  qed
  then show ?thesis by (simp add: averageTemperature_def)
qed

lemma map_filter_via_map:
  "List.map_filter f vs = List.map_filter (\<lambda>x. x) (map f vs)"
  by (simp add: List.map_filter_def filter_map comp_def)

lemma map_filter_numbers:
  "List.map_filter (\<lambda>x. x) (map (map_option JNumber) xs)
     = map JNumber (List.map_filter (\<lambda>x. x) xs)"
proof (induction xs)
  case Nil
  show ?case by (simp add: List.map_filter_simps)
next
  case (Cons x xs)
  then show ?case by (cases x) (simp_all add: List.map_filter_simps)
qed

lemma map_filter_all_absent:
  "list_all (\<lambda>x. x = None) (map f vs) \<Longrightarrow> List.map_filter f vs = []"
  by (induction vs) (simp_all add: List.map_filter_simps)

lemma polygonAvgTemp_aggregate:
  assumes "map (vertexSample net) (butlast coords) = map (map_option JNumber) xs"
  shows "polygonAvgTemp (fst (handlePolygonDraw net coords p s))
     = map_option Number (spec_aggregate xs)"
proof -
  have m: "List.map_filter (vertexSample net) (butlast coords)
      = map JNumber (List.map_filter (\<lambda>x. x) xs)"
    by (simp add: map_filter_via_map [of "vertexSample net"] assms map_filter_numbers)
  show ?thesis
    unfolding handlePolygonDraw_store m spec_aggregate_def
    by (simp add: applyTemperatures_def Let_def averageTemperature_numbers
          renderPolygonToMap_def)
qed

lemma applyTemperatures_present:
  assumes "temps \<noteq> []"
  shows "derived (applyTemperatures coords p temps s) p =
     (Some \<lparr>avgTemp = averageTemperature temps, centroid = calculateCentroid coords\<rparr>,
      Some \<lparr>source_coordinates = coords,
            fill_color = (case averageTemperature temps of
               Number a \<Rightarrow> Some (getTemperatureColor a) | Unmodelled \<Rightarrow> None)\<rparr>,
      Some \<lparr>marker_lnglat = calculateCentroid coords,
            marker_color = (case averageTemperature temps of
               Number a \<Rightarrow> Some (getTemperatureColor a) | Unmodelled \<Rightarrow> None),
            marker_avgTemp = averageTemperature temps\<rparr>)"
  using assms
  by (simp add: applyTemperatures_def derived_def renderPolygonToMap_def Let_def)

lemma applyTemperatures_absent:
  "applyTemperatures coords p [] s = s\<lparr>polygonAvgTemp := None, polygonCentroid := None\<rparr>"
  by (simp add: applyTemperatures_def)

text \<open>
  An entry that is neither \<open>null\<close> nor a number is taken as a sample like any other:
  it enters the array, and the average is then one the model does not determine.
\<close>

lemma malformed_entry_is_sampled:
  assumes "net (lat, lng) = Body (TempArray (Some JOther # rest))"
  shows "vertexSample net (lng, lat) = Some JOther"
    and "(lng, lat) \<in> set (butlast coords) \<Longrightarrow>
         polygonAvgTemp (fst (handlePolygonDraw net coords p s)) = Some Unmodelled"
proof -
  show v: "vertexSample net (lng, lat) = Some JOther"
    using assms by (simp add: vertexSample_def getTemperatureForCoordinate_def)
  assume "(lng, lat) \<in> set (butlast coords)"
  with v have o: "JOther \<in> set (List.map_filter (vertexSample net) (butlast coords))"
    by (force simp: List.map_filter_def)
  then have "List.map_filter (vertexSample net) (butlast coords) \<noteq> []" by auto
  with o show "polygonAvgTemp (fst (handlePolygonDraw net coords p s)) = Some Unmodelled"
    by (simp add: handlePolygonDraw_store applyTemperatures_def Let_def
          averageTemperature_other renderPolygonToMap_def)
qed

text \<open>
  Claim C5, as the code has it. A call of \<open>handlePolygonDraw\<close> sends one query per
  element of the ring but the last, in order: one per vertex of a ring passed with its
  closing element. A request that is rejected, whose body does not parse, whose series
  is missing, not an array or empty, or whose first entry is \<open>null\<close> gives an absent
  sample; replacing the outcome of one query leaves the sample of every other vertex as
  it was. The loop keeps the present samples and runs to the end of the ring. When the
  present samples are numbers the average stored is the specification's aggregate of
  the samples: 25 for the samples 20, absent, 30. When every sample is absent the
  average and the centroid shown are cleared and nothing else changes: no colour is
  computed, and the polygon's entry, layer and marker stay as they were.
\<close>

theorem sampling_isolates_failures:
  "snd (handlePolygonDraw net coords p s) = map (\<lambda>(lng, lat). (lat, lng)) (butlast coords) \<and>
   snd (handlePolygonDraw net (ws @ [c]) p s) = map (\<lambda>(lng, lat). (lat, lng)) ws \<and>
   (net (lat, lon) \<in> {FetchRejected, JsonRejected, Body NotAnArray,
        Body (TempArray []), Body (TempArray (None # rest))} \<longrightarrow>
      getTemperatureForCoordinate net lat lon = None) \<and>
   (v \<noteq> (lon, lat) \<longrightarrow> vertexSample (net((lat, lon) := out)) v = vertexSample net v) \<and>
   temperatures (sampleLoop net vs \<lparr>temperatures = [], fetched = []\<rparr>)
     = List.map_filter (\<lambda>x. x) (map (vertexSample net) vs) \<and>
   (map (vertexSample net) (butlast coords) = map (map_option JNumber) xs \<longrightarrow>
      polygonAvgTemp (fst (handlePolygonDraw net coords p s))
        = map_option Number (spec_aggregate xs)) \<and>
   (map (vertexSample net) (butlast coords) = [Some (JNumber 20), None, Some (JNumber 30)] \<longrightarrow>
      polygonAvgTemp (fst (handlePolygonDraw net coords p s)) = Some (Number 25)) \<and>
   (list_all (\<lambda>x. x = None) (map (vertexSample net) (butlast coords)) \<longrightarrow>
      fst (handlePolygonDraw net coords p s)
        = s\<lparr>polygonAvgTemp := None, polygonCentroid := None\<rparr>)"
proof -
  have f: "snd (handlePolygonDraw net (ws @ [c]) p s) = map (\<lambda>(lng, lat). (lat, lng)) ws"
    by (simp add: handlePolygonDraw_fetched)
  have t: "temperatures (sampleLoop net vs \<lparr>temperatures = [], fetched = []\<rparr>)
     = List.map_filter (\<lambda>x. x) (map (vertexSample net) vs)"
    by (simp add: sampleLoop_eq map_filter_via_map [symmetric])
  have e: "polygonAvgTemp (fst (handlePolygonDraw net coords p s)) = Some (Number 25)"
    if a: "map (vertexSample net) (butlast coords) = [Some (JNumber 20), None, Some (JNumber 30)]"
  proof -
    from a have "map (vertexSample net) (butlast coords)
        = map (map_option JNumber) [Some 20, None, Some 30]"
      by simp
    then have "polygonAvgTemp (fst (handlePolygonDraw net coords p s))
        = map_option Number (spec_aggregate [Some 20, None, Some 30])"
      by (rule polygonAvgTemp_aggregate)
    then show ?thesis
      by (simp add: spec_aggregate_def List.map_filter_simps)
  qed
  have n: "fst (handlePolygonDraw net coords p s)
        = s\<lparr>polygonAvgTemp := None, polygonCentroid := None\<rparr>"
    if a: "list_all (\<lambda>x. x = None) (map (vertexSample net) (butlast coords))"
  proof -
    from a have "List.map_filter (vertexSample net) (butlast coords) = []"
      by (rule map_filter_all_absent)
    then show ?thesis
      by (simp add: handlePolygonDraw_store applyTemperatures_absent)
  qed
  from handlePolygonDraw_fetched [of net coords p s] f failed_request_absent [of net lat lon rest]
    vertexSample_other [of v lon lat net out] t
    polygonAvgTemp_aggregate [of net coords xs p s] e n
  show ?thesis by blast
qed

theorem sampling_isolates_failures_witness:
  "((steadyProvider 20)((0, 1) := FetchRejected,
        (1, 0) := Body (TempArray [Some (JNumber 30), Some (JNumber 7)]))) (0, 1)
      \<in> {FetchRejected, JsonRejected, Body NotAnArray, Body (TempArray []),
          Body (TempArray (None # []))} \<and>
   map (vertexSample ((steadyProvider 20)((0, 1) := FetchRejected,
          (1, 0) := Body (TempArray [Some (JNumber 30), Some (JNumber 7)]))))
       (butlast [(0, 0), (1, 0), (0, 1), (0, 0)])
     = [Some (JNumber 20), None, Some (JNumber 30)] \<and>
   handlePolygonDraw ((steadyProvider 20)((0, 1) := FetchRejected,
          (1, 0) := Body (TempArray [Some (JNumber 30), Some (JNumber 7)])))
       [(0, 0), (1, 0), (0, 1), (0, 0)] ''P'' emptyMap
     = (emptyMap\<lparr>polygonAvgTemp := Some (Number 25), polygonCentroid := Some (1 / 3, 1 / 3),
          polygonData := [''P'' \<mapsto> \<lparr>avgTemp = Number 25, centroid = (1 / 3, 1 / 3)\<rparr>],
          layers := [''P'' \<mapsto> \<lparr>source_coordinates = [(0, 0), (1, 0), (0, 1), (0, 0)],
                      fill_color = Some ''#00ff00''\<rparr>],
          markers := [''P'' \<mapsto> \<lparr>marker_lnglat = (1 / 3, 1 / 3),
                      marker_color = Some ''#00ff00'', marker_avgTemp = Number 25\<rparr>]\<rparr>,
        [(0, 0), (0, 1), (1, 0)])"
  using sampling_isolates_failures [of
      "(steadyProvider 20)((0, 1) := FetchRejected,
          (1, 0) := Body (TempArray [Some (JNumber 30), Some (JNumber 7)]))"
      "[(0, 0), (1, 0), (0, 1), (0, 0)]" "''P''" emptyMap]
  by (simp add: steadyProvider_def vertexSample_def getTemperatureForCoordinate_def
        handlePolygonDraw_def applyTemperatures_def renderPolygonToMap_def
        averageTemperature_def calculateCentroid_def getTemperatureColor_def emptyMap_def
        Let_def)

text \<open>
  The claim as the specification states it fails in two places. A ring that passes
  through a vertex twice has that vertex queried twice: four queries for three distinct
  vertices. And a polygon whose samples are all absent is not given the neutral colour:
  a first draw renders nothing, and an update after a draw that rendered red leaves the
  red layer in place.
\<close>

theorem sampling_counterexample:
  "length (remdups (butlast [(0, 0), (1, 0), (0, 1), (1, 0), (0, 0 :: real) :: lnglat])) = 3 \<and>
   snd (handlePolygonDraw (steadyProvider 5)
      [(0, 0), (1, 0), (0, 1), (1, 0), (0, 0)] ''P'' emptyMap)
     = [(0, 0), (0, 1), (1, 0), (0, 1)] \<and>
   layers (fst (handlePolygonDraw
      ((steadyProvider 5)((0, 0) := FetchRejected, (0, 1) := FetchRejected,
         (1, 0) := FetchRejected))
      [(0, 0), (1, 0), (0, 1), (0, 0)] ''P'' emptyMap)) ''P'' = None \<and>
   polygonAvgTemp (fst (handlePolygonDraw
      ((steadyProvider 5)((0, 0) := FetchRejected, (0, 1) := FetchRejected,
         (1, 0) := FetchRejected))
      [(0, 0), (1, 0), (0, 1), (0, 0)] ''P''
      (fst (handlePolygonDraw (steadyProvider 5)
         [(0, 0), (1, 0), (0, 1), (0, 0)] ''P'' emptyMap)))) = None \<and>
   layers (fst (handlePolygonDraw
      ((steadyProvider 5)((0, 0) := FetchRejected, (0, 1) := FetchRejected,
         (1, 0) := FetchRejected))
      [(0, 0), (1, 0), (0, 1), (0, 0)] ''P''
      (fst (handlePolygonDraw (steadyProvider 5)
         [(0, 0), (1, 0), (0, 1), (0, 0)] ''P'' emptyMap)))) ''P''
     = Some \<lparr>source_coordinates = [(0, 0), (1, 0), (0, 1), (0, 0)],
             fill_color = Some ''#ff0000''\<rparr>"
  by (simp add: steadyProvider_def getTemperatureForCoordinate_def
        handlePolygonDraw_def applyTemperatures_def renderPolygonToMap_def
        averageTemperature_def calculateCentroid_def getTemperatureColor_def emptyMap_def
        Let_def)

subsection \<open>Rendering\<close>

text \<open>
  Claim C10. When the samples present are numbers and there is at least one, the fill
  colour rendered for the polygon is \<open>getTemperatureColor\<close> of the average: red below
  10, blue from 10 to below 25, green from 25. Two applications that differ only in the
  data sources' threshold rules and in the per-polygon configuration end with the same
  map view.
\<close>

theorem fill_color_ignores_configuration:
  assumes "mapView d1 = mapView d2"
    and "List.map_filter (vertexSample net) (butlast coords) = map JNumber temps"
    and "temps \<noteq> []"
  shows "mapView (dashboardDraw net coords p d1) = mapView (dashboardDraw net coords p d2) \<and>
    map_option fill_color (layers (mapView (dashboardDraw net coords p d1)) p)
      = Some (Some (getTemperatureColor (sum_list temps / real (length temps)))) \<and>
    getTemperatureColor (sum_list temps / real (length temps))
      = (if sum_list temps / real (length temps) < 10 then ''#ff0000''
         else if sum_list temps / real (length temps) < 25 then ''#0000ff''
         else ''#00ff00'')"
proof -
  have a: "mapView (dashboardDraw net coords p d1) = mapView (dashboardDraw net coords p d2)"
    using assms(1) by (simp add: dashboardDraw_def)
  have ne: "map JNumber temps \<noteq> []" using assms(3) by simp
  have "derived (mapView (dashboardDraw net coords p d1)) p
      = derived (applyTemperatures coords p (map JNumber temps) (mapView d1)) p"
    by (simp add: dashboardDraw_def handlePolygonDraw_store assms(2))
  then have b: "map_option fill_color (layers (mapView (dashboardDraw net coords p d1)) p)
      = Some (Some (getTemperatureColor (sum_list temps / real (length temps))))"
    unfolding applyTemperatures_present [OF ne]
    by (simp add: derived_def averageTemperature_numbers)
  have c: "getTemperatureColor (sum_list temps / real (length temps))
      = (if sum_list temps / real (length temps) < 10 then ''#ff0000''
         else if sum_list temps / real (length temps) < 25 then ''#0000ff''
         else ''#00ff00'')"
    by (simp add: getTemperatureColor_def)
  from a b c show ?thesis by blast
qed

theorem fill_color_ignores_configuration_witness:
  "mapView \<lparr>dataSources = [\<lparr>ds_id = ''a'', selectedField = ''temperature_2m'',
        thresholds = [\<lparr>operator = OpLt, rule_value = 50, color = ''#123456''\<rparr>]\<rparr>],
      configByPolygon = Map.empty, mapView = emptyMap\<rparr>
     = mapView \<lparr>dataSources = [], configByPolygon = [''P'' \<mapsto> \<lparr>dataSource = None, threshold = Some 3\<rparr>],
         mapView = emptyMap\<rparr> \<and>
   List.map_filter (vertexSample (steadyProvider 7)) (butlast [(0, 0), (1, 0), (0, 1), (0, 0)])
     = map JNumber [7, 7, 7] \<and>
   [7, 7, 7] \<noteq> ([]::real list) \<and>
   map_option fill_color (layers (mapView (dashboardDraw (steadyProvider 7)
      [(0, 0), (1, 0), (0, 1), (0, 0)] ''P''
      \<lparr>dataSources = [\<lparr>ds_id = ''a'', selectedField = ''temperature_2m'',
        thresholds = [\<lparr>operator = OpLt, rule_value = 50, color = ''#123456''\<rparr>]\<rparr>],
      configByPolygon = Map.empty, mapView = emptyMap\<rparr>)) ''P'') = Some (Some ''#ff0000'')"
proof -
  have h1: "mapView \<lparr>dataSources = [\<lparr>ds_id = ''a'', selectedField = ''temperature_2m'',
        thresholds = [\<lparr>operator = OpLt, rule_value = 50, color = ''#123456''\<rparr>]\<rparr>],
      configByPolygon = Map.empty, mapView = emptyMap\<rparr>
     = mapView \<lparr>dataSources = [], configByPolygon = [''P'' \<mapsto> \<lparr>dataSource = None, threshold = Some 3\<rparr>],
         mapView = emptyMap\<rparr>"
    by simp
  have h2: "List.map_filter (vertexSample (steadyProvider 7)) (butlast [(0, 0), (1, 0), (0, 1), (0, 0)])
     = map JNumber [7, 7, 7]"
    by (simp add: List.map_filter_simps vertexSample_def getTemperatureForCoordinate_def
          steadyProvider_def)
  have h3: "[7, 7, 7] \<noteq> ([]::real list)" by simp
  from fill_color_ignores_configuration [OF h1 h2 h3, of "''P''"]
  have "map_option fill_color (layers (mapView (dashboardDraw (steadyProvider 7)
      [(0, 0), (1, 0), (0, 1), (0, 0)] ''P''
      \<lparr>dataSources = [\<lparr>ds_id = ''a'', selectedField = ''temperature_2m'',
        thresholds = [\<lparr>operator = OpLt, rule_value = 50, color = ''#123456''\<rparr>]\<rparr>],
      configByPolygon = Map.empty, mapView = emptyMap\<rparr>)) ''P'')
      = Some (Some (getTemperatureColor (sum_list [7, 7, 7] / real (length [7, 7, 7 :: real]))))"
    by blast
  then have h4: "map_option fill_color (layers (mapView (dashboardDraw (steadyProvider 7)
      [(0, 0), (1, 0), (0, 1), (0, 0)] ''P''
      \<lparr>dataSources = [\<lparr>ds_id = ''a'', selectedField = ''temperature_2m'',
        thresholds = [\<lparr>operator = OpLt, rule_value = 50, color = ''#123456''\<rparr>]\<rparr>],
      configByPolygon = Map.empty, mapView = emptyMap\<rparr>)) ''P'') = Some (Some ''#ff0000'')"
    by (simp add: getTemperatureColor_def)
  from h1 h2 h3 h4 show ?thesis by blast
qed

subsection \<open>Draw events\<close>

text \<open>
  Claim C7, as the code has it. The handlers do not validate the ring. A create or
  update event whose feature is a polygon with a non-empty id starts a call of
  \<open>handlePolygonDraw\<close> whatever the number of vertices; the call sends one query per
  ring element but the last, and when a sample is present it stores and renders the
  polygon. Only a feature that is not a polygon or has no id is ignored.
\<close>

theorem draw_events_are_not_validated:
  "(feature_geometry f = Polygon coords \<and> featureId f = Some i \<longrightarrow>
      onDrawCreate net f st = startDraw net coords i st \<and>
      onDrawUpdate net [f] st = startDraw net coords i st) \<and>
   (butlast coords \<noteq> [] \<longrightarrow>
      startDraw net coords i st = st\<lparr>inflight := inflight st @ [(coords, i)]\<rparr>) \<and>
   snd (handlePolygonDraw net coords i s) = map (\<lambda>(lng, lat). (lat, lng)) (butlast coords) \<and>
   (List.map_filter (vertexSample net) (butlast coords) \<noteq> [] \<longrightarrow>
      map_option centroid (polygonData (fst (handlePolygonDraw net coords i s)) i)
        = Some (calculateCentroid coords) \<and>
      map_option source_coordinates (layers (fst (handlePolygonDraw net coords i s)) i)
        = Some coords) \<and>
   (feature_geometry f = OtherGeometry \<or> featureId f = None \<longrightarrow>
      onDrawCreate net f st = st \<and> onDrawUpdate net [f] st = st)"
proof -
  have a: "onDrawCreate net f st = startDraw net coords i st \<and>
      onDrawUpdate net [f] st = startDraw net coords i st"
    if "feature_geometry f = Polygon coords \<and> featureId f = Some i"
    using that by (simp add: onDrawCreate_def)
  have b: "startDraw net coords i st = st\<lparr>inflight := inflight st @ [(coords, i)]\<rparr>"
    if "butlast coords \<noteq> []"
    using that by (simp add: startDraw_def)
  have c: "map_option centroid (polygonData (fst (handlePolygonDraw net coords i s)) i)
        = Some (calculateCentroid coords) \<and>
      map_option source_coordinates (layers (fst (handlePolygonDraw net coords i s)) i)
        = Some coords"
    if "List.map_filter (vertexSample net) (butlast coords) \<noteq> []"
    using applyTemperatures_present [OF that, of coords i s]
    by (simp add: handlePolygonDraw_store derived_def)
  have d: "onDrawCreate net f st = st \<and> onDrawUpdate net [f] st = st"
    if "feature_geometry f = OtherGeometry \<or> featureId f = None"
    using that by (auto simp: onDrawCreate_def split: geometry.splits)
  from a b c d handlePolygonDraw_fetched [of net coords i s] show ?thesis by blast
qed

theorem draw_events_are_not_validated_witness:
  "feature_geometry \<lparr>feature_id = Some ''P'', feature_geometry = Polygon [(0, 0), (1, 1), (0, 0)]\<rparr>
     = Polygon [(0, 0), (1, 1), (0, 0)] \<and>
   featureId \<lparr>feature_id = Some ''P'', feature_geometry = Polygon [(0, 0), (1, 1), (0, 0)]\<rparr>
     = Some ''P'' \<and>
   butlast [(0, 0), (1, 1), (0, 0 :: real) :: lnglat] \<noteq> [] \<and>
   onDrawCreate (steadyProvider 20)
       \<lparr>feature_id = Some ''P'', feature_geometry = Polygon [(0, 0), (1, 1), (0, 0)]\<rparr>
       \<lparr>store = emptyMap, inflight = []\<rparr>
     = \<lparr>store = emptyMap, inflight = [([(0, 0), (1, 1), (0, 0)], ''P'')]\<rparr>"
proof -
  have h1: "feature_geometry \<lparr>feature_id = Some ''P'', feature_geometry = Polygon [(0, 0), (1, 1), (0, 0)]\<rparr>
     = Polygon [(0, 0), (1, 1), (0, 0)] \<and>
   featureId \<lparr>feature_id = Some ''P'', feature_geometry = Polygon [(0, 0), (1, 1), (0, 0)]\<rparr>
     = Some ''P''"
    by (simp add: featureId_def)
  have h2: "butlast [(0, 0), (1, 1), (0, 0 :: real) :: lnglat] \<noteq> []" by simp
  from draw_events_are_not_validated [of
      "\<lparr>feature_id = Some ''P'', feature_geometry = Polygon [(0, 0), (1, 1), (0, 0)]\<rparr>"
      "[(0, 0), (1, 1), (0, 0)]" "''P''" "steadyProvider 20"
      "\<lparr>store = emptyMap, inflight = []\<rparr>"] h1 h2
  have "onDrawCreate (steadyProvider 20)
       \<lparr>feature_id = Some ''P'', feature_geometry = Polygon [(0, 0), (1, 1), (0, 0)]\<rparr>
       \<lparr>store = emptyMap, inflight = []\<rparr>
     = \<lparr>store = emptyMap, inflight = []\<rparr>\<lparr>inflight := inflight \<lparr>store = emptyMap, inflight = []\<rparr>
          @ [([(0, 0), (1, 1), (0, 0)], ''P'')]\<rparr>"
    by metis
  with h1 h2 show ?thesis by simp
qed

text \<open>
  A ring with two distinct vertices is not rejected: the create event puts a call in
  flight, the call sends two queries, and when it finishes the polygon is in the store.
\<close>

theorem two_vertex_ring_counterexample:
  "length (remdups (butlast [(0, 0), (1, 1), (0, 0 :: real) :: lnglat])) = 2 \<and>
   inflight (onDrawCreate (steadyProvider 20)
       \<lparr>feature_id = Some ''P'', feature_geometry = Polygon [(0, 0), (1, 1), (0, 0)]\<rparr>
       \<lparr>store = emptyMap, inflight = []\<rparr>) = [([(0, 0), (1, 1), (0, 0)], ''P'')] \<and>
   snd (handlePolygonDraw (steadyProvider 20) [(0, 0), (1, 1), (0, 0)] ''P'' emptyMap)
     = [(0, 0), (1, 1)] \<and>
   polygonData (store (finishDraw (steadyProvider 20) 0 (onDrawCreate (steadyProvider 20)
       \<lparr>feature_id = Some ''P'', feature_geometry = Polygon [(0, 0), (1, 1), (0, 0)]\<rparr>
       \<lparr>store = emptyMap, inflight = []\<rparr>))) ''P''
     = Some \<lparr>avgTemp = Number 20, centroid = (1 / 2, 1 / 2)\<rparr>"
  by (simp add: onDrawCreate_def featureId_def startDraw_def finishDraw_def
        handlePolygonDraw_def applyTemperatures_def renderPolygonToMap_def
        calculateCentroid_def getTemperatureForCoordinate_def steadyProvider_def
        averageTemperature_def emptyMap_def Let_def)

subsection \<open>Calls in flight for the same polygon\<close>

text \<open>
  Claim C1, as the code has it. There is no generation counter: each call writes its
  result when it finishes, and a call that obtained no sample leaves the polygon's entry
  untouched. With the call for the previous ring and the call for the new ring both in
  flight, if the newer finishes first and the older one last, the store holds for the
  polygon what the older call wrote whenever that call obtained a sample; when it
  obtained none, the entry of the newer call stays. When the calls finish in the order
  they started, the entry reflects the new ring if its call obtained a sample, and is
  the one the older call wrote if it did not.
\<close>

theorem last_finished_pass_wins:
  assumes "inflight st = [(ring1, p), (ring2, p)]"
  shows "store (finishDraw net 0 (finishDraw net 1 st))
      = fst (handlePolygonDraw net ring1 p (fst (handlePolygonDraw net ring2 p (store st)))) \<and>
    (List.map_filter (vertexSample net) (butlast ring1) \<noteq> [] \<longrightarrow>
       derived (store (finishDraw net 0 (finishDraw net 1 st))) p
         = derived (fst (handlePolygonDraw net ring1 p (store st))) p) \<and>
    (List.map_filter (vertexSample net) (butlast ring1) = [] \<longrightarrow>
       derived (store (finishDraw net 0 (finishDraw net 1 st))) p
         = derived (fst (handlePolygonDraw net ring2 p (store st))) p) \<and>
    (List.map_filter (vertexSample net) (butlast ring2) \<noteq> [] \<longrightarrow>
       derived (store (finishDraw net 0 (finishDraw net 0 st))) p
         = derived (fst (handlePolygonDraw net ring2 p (store st))) p) \<and>
    (List.map_filter (vertexSample net) (butlast ring2) = [] \<longrightarrow>
       derived (store (finishDraw net 0 (finishDraw net 0 st))) p
         = derived (fst (handlePolygonDraw net ring1 p (store st))) p)"
proof -
  have a: "store (finishDraw net 0 (finishDraw net 1 st))
      = fst (handlePolygonDraw net ring1 p (fst (handlePolygonDraw net ring2 p (store st))))"
    using assms by (simp add: finishDraw_def)
  have a': "store (finishDraw net 0 (finishDraw net 0 st))
      = fst (handlePolygonDraw net ring2 p (fst (handlePolygonDraw net ring1 p (store st))))"
    using assms by (simp add: finishDraw_def)
  have b: "derived (store (finishDraw net 0 (finishDraw net 1 st))) p
         = derived (fst (handlePolygonDraw net ring1 p (store st))) p"
    if "List.map_filter (vertexSample net) (butlast ring1) \<noteq> []"
    unfolding a handlePolygonDraw_store
    by (simp add: applyTemperatures_present [OF that])
  have c: "derived (store (finishDraw net 0 (finishDraw net 1 st))) p
         = derived (fst (handlePolygonDraw net ring2 p (store st))) p"
    if "List.map_filter (vertexSample net) (butlast ring1) = []"
    unfolding a handlePolygonDraw_store that
    by (simp add: applyTemperatures_absent derived_def)
  have d: "derived (store (finishDraw net 0 (finishDraw net 0 st))) p
         = derived (fst (handlePolygonDraw net ring2 p (store st))) p"
    if "List.map_filter (vertexSample net) (butlast ring2) \<noteq> []"
    unfolding a' handlePolygonDraw_store
    by (simp add: applyTemperatures_present [OF that])
  have e: "derived (store (finishDraw net 0 (finishDraw net 0 st))) p
         = derived (fst (handlePolygonDraw net ring1 p (store st))) p"
    if "List.map_filter (vertexSample net) (butlast ring2) = []"
    unfolding a' handlePolygonDraw_store that
    by (simp add: applyTemperatures_absent derived_def)
  from a b c d e show ?thesis by blast
qed

theorem last_finished_pass_wins_witness:
  "inflight \<lparr>store = emptyMap,
       inflight = [([(0, 0), (2, 0), (0, 2), (0, 0)], ''P''),
                   ([(10, 10), (12, 10), (10, 12), (10, 10)], ''P'')]\<rparr>
     = [([(0, 0), (2, 0), (0, 2), (0, 0)], ''P''),
        ([(10, 10), (12, 10), (10, 12), (10, 10)], ''P'')] \<and>
   List.map_filter (vertexSample (steadyProvider 30)) (butlast [(0, 0), (2, 0), (0, 2), (0, 0)]) \<noteq> [] \<and>
   derived (store (finishDraw (steadyProvider 30) 0 (finishDraw (steadyProvider 30) 1
      \<lparr>store = emptyMap,
       inflight = [([(0, 0), (2, 0), (0, 2), (0, 0)], ''P''),
                   ([(10, 10), (12, 10), (10, 12), (10, 10)], ''P'')]\<rparr>))) ''P''
     = (Some \<lparr>avgTemp = Number 30, centroid = (2 / 3, 2 / 3)\<rparr>,
        Some \<lparr>source_coordinates = [(0, 0), (2, 0), (0, 2), (0, 0)], fill_color = Some ''#00ff00''\<rparr>,
        Some \<lparr>marker_lnglat = (2 / 3, 2 / 3), marker_color = Some ''#00ff00'', marker_avgTemp = Number 30\<rparr>)"
proof -
  have h1: "inflight \<lparr>store = emptyMap,
       inflight = [([(0, 0), (2, 0), (0, 2), (0, 0)], ''P''),
                   ([(10, 10), (12, 10), (10, 12), (10, 10)], ''P'')]\<rparr>
     = [([(0, 0), (2, 0), (0, 2), (0, 0)], ''P''),
        ([(10, 10), (12, 10), (10, 12), (10, 10)], ''P'')]"
    by simp
  have h2: "List.map_filter (vertexSample (steadyProvider 30))
      (butlast [(0, 0), (2, 0), (0, 2), (0, 0)]) \<noteq> []"
    by (simp add: List.map_filter_simps vertexSample_def getTemperatureForCoordinate_def
          steadyProvider_def)
  from last_finished_pass_wins [OF h1, of "steadyProvider 30"] h2
  have "derived (store (finishDraw (steadyProvider 30) 0 (finishDraw (steadyProvider 30) 1
      \<lparr>store = emptyMap,
       inflight = [([(0, 0), (2, 0), (0, 2), (0, 0)], ''P''),
                   ([(10, 10), (12, 10), (10, 12), (10, 10)], ''P'')]\<rparr>))) ''P''
     = derived (fst (handlePolygonDraw (steadyProvider 30) [(0, 0), (2, 0), (0, 2), (0, 0)] ''P''
         (store \<lparr>store = emptyMap,
       inflight = [([(0, 0), (2, 0), (0, 2), (0, 0)], ''P''),
                   ([(10, 10), (12, 10), (10, 12), (10, 10)], ''P'')]\<rparr>))) ''P''"
    by blast
  also have "\<dots> = (Some \<lparr>avgTemp = Number 30, centroid = (2 / 3, 2 / 3)\<rparr>,
        Some \<lparr>source_coordinates = [(0, 0), (2, 0), (0, 2), (0, 0)], fill_color = Some ''#00ff00''\<rparr>,
        Some \<lparr>marker_lnglat = (2 / 3, 2 / 3), marker_color = Some ''#00ff00'', marker_avgTemp = Number 30\<rparr>)"
    by (simp add: derived_def handlePolygonDraw_def applyTemperatures_def
        renderPolygonToMap_def calculateCentroid_def getTemperatureForCoordinate_def
        getTemperatureColor_def averageTemperature_def steadyProvider_def emptyMap_def Let_def)
  finally show ?thesis using h1 h2 by blast
qed

text \<open>
  The claim as the specification states it fails: after a create with a ring in a cold
  area and an update to a ring in a warm area, the update's call finishing first and the
  create's call last, the polygon has the colour, average, centroid and marker of the
  first ring.
\<close>

theorem stale_pass_overwrites_counterexample:
  "inflight (onDrawUpdate
       ((steadyProvider 30)((0, 0) := Body (TempArray [Some (JNumber 5)]),
          (0, 2) := Body (TempArray [Some (JNumber 5)]), (2, 0) := Body (TempArray [Some (JNumber 5)])))
       [\<lparr>feature_id = Some ''P'',
         feature_geometry = Polygon [(10, 10), (12, 10), (10, 12), (10, 10)]\<rparr>]
       (onDrawCreate
         ((steadyProvider 30)((0, 0) := Body (TempArray [Some (JNumber 5)]),
            (0, 2) := Body (TempArray [Some (JNumber 5)]), (2, 0) := Body (TempArray [Some (JNumber 5)])))
         \<lparr>feature_id = Some ''P'', feature_geometry = Polygon [(0, 0), (2, 0), (0, 2), (0, 0)]\<rparr>
         \<lparr>store = emptyMap, inflight = []\<rparr>))
     = [([(0, 0), (2, 0), (0, 2), (0, 0)], ''P''),
        ([(10, 10), (12, 10), (10, 12), (10, 10)], ''P'')] \<and>
   derived (store
     (finishDraw
       ((steadyProvider 30)((0, 0) := Body (TempArray [Some (JNumber 5)]),
          (0, 2) := Body (TempArray [Some (JNumber 5)]), (2, 0) := Body (TempArray [Some (JNumber 5)])))
       0
       (finishDraw
         ((steadyProvider 30)((0, 0) := Body (TempArray [Some (JNumber 5)]),
            (0, 2) := Body (TempArray [Some (JNumber 5)]), (2, 0) := Body (TempArray [Some (JNumber 5)])))
         1
         \<lparr>store = emptyMap,
          inflight = [([(0, 0), (2, 0), (0, 2), (0, 0)], ''P''),
                      ([(10, 10), (12, 10), (10, 12), (10, 10)], ''P'')]\<rparr>))) ''P''
     = (Some \<lparr>avgTemp = Number 5, centroid = (2 / 3, 2 / 3)\<rparr>,
        Some \<lparr>source_coordinates = [(0, 0), (2, 0), (0, 2), (0, 0)], fill_color = Some ''#ff0000''\<rparr>,
        Some \<lparr>marker_lnglat = (2 / 3, 2 / 3), marker_color = Some ''#ff0000'', marker_avgTemp = Number 5\<rparr>) \<and>
   derived (fst (handlePolygonDraw
       ((steadyProvider 30)((0, 0) := Body (TempArray [Some (JNumber 5)]),
          (0, 2) := Body (TempArray [Some (JNumber 5)]), (2, 0) := Body (TempArray [Some (JNumber 5)])))
       [(10, 10), (12, 10), (10, 12), (10, 10)] ''P'' emptyMap)) ''P''
     = (Some \<lparr>avgTemp = Number 30, centroid = (32 / 3, 32 / 3)\<rparr>,
        Some \<lparr>source_coordinates = [(10, 10), (12, 10), (10, 12), (10, 10)],
              fill_color = Some ''#00ff00''\<rparr>,
        Some \<lparr>marker_lnglat = (32 / 3, 32 / 3), marker_color = Some ''#00ff00'', marker_avgTemp = Number 30\<rparr>)"
  by (simp add: onDrawCreate_def featureId_def startDraw_def finishDraw_def derived_def
        handlePolygonDraw_def applyTemperatures_def renderPolygonToMap_def
        calculateCentroid_def getTemperatureForCoordinate_def getTemperatureColor_def
        averageTemperature_def steadyProvider_def emptyMap_def Let_def)

end
